theory Spec2Isabelle
  imports Complex_Main
begin

section \<open>Data model\<close>

text \<open>
  The repository holds two near-identical drivers of the same game:
  \<^verbatim>\<open>src/Application.js\<close>, in which the world scrolls with the player
  (\<open>Scrolling\<close>), and a second file in which the player stays inside a fixed screen
  (\<open>Fixed\<close>). Every function below takes the variant where the two files differ and is
  the same for both where they agree. JavaScript numbers are modelled as reals: the
  code's binary64 arithmetic agrees with them wherever operands and results are held
  exactly, and rounds elsewhere.
\<close>

datatype variant = Scrolling | Fixed

text \<open>\<open>viewBounds\<close>: a rectangle \<open>{x, y, w, h}\<close> of offsets from the entity's position.\<close>

record bounds =
  vb_x :: real
  vb_y :: real
  vb_w :: real
  vb_h :: real

text \<open>
  An entity of the devkit \<open>entities\<close> library: position, view bounds and whether it is
  still held by its pool (\<open>release\<close> clears the flag).
\<close>

record entity =
  xpos :: real
  ypos :: real
  viewBounds :: bounds
  active :: bool

text \<open>
  \<open>Player\<close> extends \<open>Entity\<close> with the anchor of the running gesture. The scrolling
  variant has no \<open>inputStartY\<close>; there the field is never read or written.
\<close>

record player_state =
  ent :: entity
  inputStartX :: real
  inputStartY :: real

text \<open>
  \<open>EntityPool\<close>: the active entities in list order, and the fixed capacity.
  \<open>Bullets\<close> adds \<open>spawnCooldown\<close>; \<open>Enemies\<close> adds \<open>spawnCooldown\<close>, \<open>spawnMin\<close> and
  \<open>spawnMax\<close>.
\<close>

record pool =
  entities :: "entity list"
  capacity :: nat

record timed_pool = pool +
  spawnCooldown :: real

record enemies_pool = timed_pool +
  spawnMin :: real
  spawnMax :: real

text \<open>
  \<open>src/config.js\<close> is not among the sources: the values the code reads from it are the
  fields of this record, and every function takes the record as a parameter.
\<close>

record config =
  bgWidth :: real
  bgHeight :: real
  playerOffsetX :: real
  playerOffsetY :: real
  playerBounds :: bounds
  inputMoveMultiplier :: real
  bulletsSpawnCooldown :: real
  bulletsBounds :: bounds
  spawnCooldownMin :: real
  spawnCooldownMax :: real

text \<open>
  \<open>src/utils.js\<close> (\<open>choose\<close>, \<open>rollFloat\<close>) is not among the sources either. The
  outcomes of the three random draws of one \<open>spawnEnemy\<close>/\<open>Enemies.update\<close> are inputs:
  the view bounds of the chosen enemy type, the rolled x and the rolled cooldown. No
  property below restricts them.
\<close>

record rolls =
  chosenBounds :: bounds
  rollX :: real
  rollCooldown :: real

text \<open>
  Calls into the devkit libraries (entities, parallax, particle engine, view styles,
  timers) are recorded, in the order the code makes them, in a trace.
\<close>

datatype pool_id = BulletsPool | EnemiesPool

datatype call =
    PlayerUpdate real
  | PlayerReset real real
  | LayerY real
  | ParallaxReset
  | ParallaxUpdate real real
  | PoolReset pool_id
  | PoolUpdate pool_id real
  | Obtain pool_id real real
  | PoolCollisions
  | PlayerCollision
  | EmitExplosion real real
  | HideView
  | SetTimeout real
  | KillAllParticles
  | RunTick real

text \<open>
  The application object \<open>app\<close>. \<open>superW\<close> and \<open>superH\<close> are the width and height of the
  player's superview, which \<open>setScreenDimensions\<close> derives from the device;
  \<open>startEvt\<close> is the gesture the input view is following (event id and start point).
\<close>

record app =
  score :: int
  gameOver :: bool
  player :: player_state
  bullets :: timed_pool
  enemies :: enemies_pool
  superW :: real
  superH :: real
  startEvt :: "(nat \<times> real \<times> real) option"
  trace :: "call list"

section \<open>Constants\<close>

definition BG_WIDTH :: "variant \<Rightarrow> config \<Rightarrow> real" where
  "BG_WIDTH v cfg = (case v of Scrolling \<Rightarrow> bgWidth cfg | Fixed \<Rightarrow> 576)"

definition BG_HEIGHT :: "variant \<Rightarrow> config \<Rightarrow> real" where
  "BG_HEIGHT v cfg = (case v of Scrolling \<Rightarrow> bgHeight cfg | Fixed \<Rightarrow> 1024)"

section \<open>Entity and EntityPool (devkit library)\<close>

text \<open>
  Modelled from the spec: \<open>Entity.reset\<close>, \<open>Entity.release\<close> and the \<open>EntityPool\<close>
  methods \<open>obtain\<close>, \<open>update\<close>, \<open>reset\<close>, \<open>onFirstPoolCollisions\<close> and
  \<open>onFirstCollision\<close> belong to the devkit \<open>entities\<close> module, which is not among the
  sources. \<open>Entity.update\<close>, the base movement of an entity, is a parameter \<open>upd\<close> of
  every function that calls it.
\<close>

definition Entity_reset :: "real \<Rightarrow> real \<Rightarrow> bounds \<Rightarrow> entity \<Rightarrow> entity" where
  "Entity_reset x y b e = e\<lparr>xpos := x, ypos := y, viewBounds := b\<rparr>"

definition release :: "entity \<Rightarrow> entity" where
  "release e = e\<lparr>active := False\<rparr>"

text \<open>\<open>EntityPool.obtain\<close> (\<open>obtain\<close> is reserved in Isabelle) activates one free slot;
  on a saturated pool it does nothing.\<close>

definition pool_obtain :: "real \<Rightarrow> real \<Rightarrow> bounds \<Rightarrow> ('a pool_scheme) \<Rightarrow> ('a pool_scheme)" where
  "pool_obtain x y b p =
     (if length (entities p) < capacity p
      then p\<lparr>entities := entities p @ [\<lparr>xpos = x, ypos = y, viewBounds = b, active = True\<rparr>]\<rparr>
      else p)"

text \<open>
  \<open>EntityPool.update\<close> runs every active entity's \<open>update\<close> in list order; an entity that
  released itself leaves the active list.
\<close>

definition EntityPool_update :: "(entity \<Rightarrow> entity) \<Rightarrow> ('a pool_scheme) \<Rightarrow> ('a pool_scheme)" where
  "EntityPool_update f p = p\<lparr>entities := filter active (map f (entities p))\<rparr>"

definition EntityPool_reset :: "('a pool_scheme) \<Rightarrow> ('a pool_scheme)" where
  "EntityPool_reset p = p\<lparr>entities := []\<rparr>"

section \<open>Player\<close>

definition Player_reset :: "variant \<Rightarrow> config \<Rightarrow> app \<Rightarrow> app" where
  "Player_reset v cfg a =
     (case v of
        Scrolling \<Rightarrow>
          a\<lparr>player := (player a)\<lparr>ent := Entity_reset (playerOffsetX cfg) (playerOffsetY cfg)
                                          (playerBounds cfg) (ent (player a))\<rparr>,
            trace := trace a @ [PlayerReset (playerOffsetX cfg) (playerOffsetY cfg)]\<rparr>
      | Fixed \<Rightarrow>
          (let x = superW a / 2; y = superH a - 150
           in a\<lparr>player := (player a)\<lparr>ent := Entity_reset x y (playerBounds cfg) (ent (player a))\<rparr>,
                trace := trace a @ [PlayerReset x y]\<rparr>))"

definition startInput :: "variant \<Rightarrow> player_state \<Rightarrow> player_state" where
  "startInput v p =
     (case v of
        Scrolling \<Rightarrow> p\<lparr>inputStartX := xpos (ent p)\<rparr>
      | Fixed \<Rightarrow> p\<lparr>inputStartX := xpos (ent p), inputStartY := ypos (ent p)\<rparr>)"

definition updateInput :: "variant \<Rightarrow> config \<Rightarrow> real \<Rightarrow> real \<Rightarrow> player_state \<Rightarrow> player_state" where
  "updateInput v cfg dx dy p =
     (case v of
        Scrolling \<Rightarrow>
          (let dx' = dx * inputMoveMultiplier cfg
           in p\<lparr>ent := (ent p)\<lparr>xpos := max 0 (min (BG_WIDTH v cfg) (inputStartX p + dx'))\<rparr>\<rparr>)
      | Fixed \<Rightarrow>
          (let dx' = dx * inputMoveMultiplier cfg;
               dy' = dy * inputMoveMultiplier cfg
           in p\<lparr>ent := (ent p)\<lparr>xpos := max 0 (min (BG_WIDTH v cfg) (inputStartX p + dx')),
                                ypos := max 0 (min (BG_HEIGHT v cfg) (inputStartY p + dy'))\<rparr>\<rparr>))"

text \<open>\<open>getScreenY\<close> exists in the scrolling variant only.\<close>

definition getScreenY :: "config \<Rightarrow> player_state \<Rightarrow> real" where
  "getScreenY cfg p = ypos (ent p) - playerOffsetY cfg"

text \<open>\<open>player.update(dt)\<close>: \<open>Player\<close> does not override \<open>Entity.update\<close>.\<close>

definition Player_update :: "(real \<Rightarrow> entity \<Rightarrow> entity) \<Rightarrow> real \<Rightarrow> app \<Rightarrow> app" where
  "Player_update upd dt a =
     a\<lparr>player := (player a)\<lparr>ent := upd dt (ent (player a))\<rparr>,
       trace := trace a @ [PlayerUpdate dt]\<rparr>"

text \<open>A gesture: the \<open>updateInput\<close> calls, in order, that follow one \<open>startInput\<close>.\<close>

definition gesture :: "variant \<Rightarrow> config \<Rightarrow> (real \<times> real) list \<Rightarrow> player_state \<Rightarrow> player_state" where
  "gesture v cfg ds p = foldl (\<lambda>q d. updateInput v cfg (fst d) (snd d) q) (startInput v p) ds"

text \<open>The spec's \<open>clamp\<close> of a value into an interval.\<close>

definition clamp :: "real \<Rightarrow> real \<Rightarrow> real \<Rightarrow> real" where
  "clamp x lo hi = (if x < lo then lo else if hi < x then hi else x)"

section \<open>Bullet and Bullets\<close>

definition Bullet_update ::
  "variant \<Rightarrow> config \<Rightarrow> (real \<Rightarrow> entity \<Rightarrow> entity) \<Rightarrow> real \<Rightarrow> app \<Rightarrow> entity \<Rightarrow> entity" where
  "Bullet_update v cfg upd dt a e =
     (let e' = upd dt e; b = viewBounds e'
      in case v of
           Scrolling \<Rightarrow>
             if ypos e' + vb_y b + vb_h b < getScreenY cfg (player a) then release e' else e'
         | Fixed \<Rightarrow>
             if ypos e' + vb_y b + vb_h b < 0 then release e' else e')"

definition Bullets_reset :: "config \<Rightarrow> app \<Rightarrow> app" where
  "Bullets_reset cfg a =
     a\<lparr>bullets := EntityPool_reset ((bullets a)\<lparr>spawnCooldown := bulletsSpawnCooldown cfg\<rparr>),
       trace := trace a @ [PoolReset BulletsPool]\<rparr>"

definition spawnBullet :: "config \<Rightarrow> app \<Rightarrow> app" where
  "spawnBullet cfg a =
     (if gameOver a then a
      else let x = xpos (ent (player a)); y = ypos (ent (player a))
           in a\<lparr>bullets := pool_obtain x y (bulletsBounds cfg) (bullets a),
                trace := trace a @ [Obtain BulletsPool x y]\<rparr>)"

definition Bullets_update ::
  "variant \<Rightarrow> config \<Rightarrow> (real \<Rightarrow> entity \<Rightarrow> entity) \<Rightarrow> real \<Rightarrow> app \<Rightarrow> app" where
  "Bullets_update v cfg upd dt a =
     (let a1 = a\<lparr>bullets := (bullets a)\<lparr>spawnCooldown := spawnCooldown (bullets a) - dt\<rparr>\<rparr>;
          a2 = (if spawnCooldown (bullets a1) \<le> 0
                then (let a' = spawnBullet cfg a1
                      in a'\<lparr>bullets := (bullets a')\<lparr>spawnCooldown :=
                              spawnCooldown (bullets a') + bulletsSpawnCooldown cfg\<rparr>\<rparr>)
                else a1)
      in a2\<lparr>bullets := EntityPool_update (Bullet_update v cfg upd dt a2) (bullets a2),
            trace := trace a2 @ [PoolUpdate BulletsPool dt]\<rparr>)"

section \<open>Enemy and Enemies\<close>

definition Enemy_update ::
  "variant \<Rightarrow> config \<Rightarrow> (real \<Rightarrow> entity \<Rightarrow> entity) \<Rightarrow> real \<Rightarrow> app \<Rightarrow> entity \<Rightarrow> entity" where
  "Enemy_update v cfg upd dt a e =
     (let e' = upd dt e; b = viewBounds e'
      in case v of
           Scrolling \<Rightarrow>
             if ypos e' + vb_y b > getScreenY cfg (player a) + BG_HEIGHT v cfg
             then release e' else e'
         | Fixed \<Rightarrow>
             if ypos e' + vb_y b > BG_HEIGHT v cfg then release e' else e')"

definition Enemies_reset :: "config \<Rightarrow> app \<Rightarrow> app" where
  "Enemies_reset cfg a =
     a\<lparr>enemies := EntityPool_reset ((enemies a)\<lparr>spawnCooldown := 0,
                                                 spawnMin := spawnCooldownMin cfg,
                                                 spawnMax := spawnCooldownMax cfg\<rparr>),
       trace := trace a @ [PoolReset EnemiesPool]\<rparr>"

definition spawnEnemy :: "variant \<Rightarrow> config \<Rightarrow> rolls \<Rightarrow> app \<Rightarrow> app" where
  "spawnEnemy v cfg r a =
     (let a1 = (if spawnMax (enemies a) > spawnMin (enemies a)
                then a\<lparr>enemies := (enemies a)\<lparr>spawnMax := spawnMax (enemies a) - 1\<rparr>\<rparr>
                else a);
          b = chosenBounds r;
          x = rollX r;
          y = (case v of
                 Scrolling \<Rightarrow> - (vb_y b + vb_h b) + getScreenY cfg (player a1)
               | Fixed \<Rightarrow> - (vb_y b + vb_h b))
      in a1\<lparr>enemies := pool_obtain x y b (enemies a1),
            trace := trace a1 @ [Obtain EnemiesPool x y]\<rparr>)"

definition Enemies_update ::
  "variant \<Rightarrow> config \<Rightarrow> (real \<Rightarrow> entity \<Rightarrow> entity) \<Rightarrow> real \<Rightarrow> rolls \<Rightarrow> app \<Rightarrow> app" where
  "Enemies_update v cfg upd dt r a =
     (let a1 = a\<lparr>enemies := (enemies a)\<lparr>spawnCooldown := spawnCooldown (enemies a) - dt\<rparr>\<rparr>;
          a2 = (if spawnCooldown (enemies a1) \<le> 0
                then (let a' = spawnEnemy v cfg r a1
                      in a'\<lparr>enemies := (enemies a')\<lparr>spawnCooldown :=
                              spawnCooldown (enemies a') + rollCooldown r\<rparr>\<rparr>)
                else a1)
      in a2\<lparr>enemies := EntityPool_update (Enemy_update v cfg upd dt a2) (enemies a2),
            trace := trace a2 @ [PoolUpdate EnemiesPool dt]\<rparr>)"

section \<open>Collisions\<close>

text \<open>
  Modelled from the spec: the collision sweeps of \<open>EntityPool\<close> (devkit \<open>entities\<close>
  module, not among the sources). Two entities collide when their world-space boxes
  (position plus view bounds) overlap, edges included. \<open>onFirstPoolCollisions\<close> tests
  every active bullet against every active enemy and calls the handler on the first
  overlapping pair only; \<open>onFirstCollision\<close> tests every active enemy against the player
  and calls the handler at the first overlap.
\<close>

definition collidesWith :: "entity \<Rightarrow> entity \<Rightarrow> bool" where
  "collidesWith e1 e2 =
     (let l1 = xpos e1 + vb_x (viewBounds e1); r1 = l1 + vb_w (viewBounds e1);
          t1 = ypos e1 + vb_y (viewBounds e1); b1 = t1 + vb_h (viewBounds e1);
          l2 = xpos e2 + vb_x (viewBounds e2); r2 = l2 + vb_w (viewBounds e2);
          t2 = ypos e2 + vb_y (viewBounds e2); b2 = t2 + vb_h (viewBounds e2)
      in l1 \<le> r2 \<and> l2 \<le> r1 \<and> t1 \<le> b2 \<and> t2 \<le> b1)"

definition remove_at :: "nat \<Rightarrow> 'a list \<Rightarrow> 'a list" where
  "remove_at i xs = take i xs @ drop (Suc i) xs"

definition first_hit :: "entity list \<Rightarrow> entity list \<Rightarrow> (nat \<times> nat) option" where
  "first_hit bs es =
     List.find (\<lambda>(i, j). collidesWith (bs ! i) (es ! j))
       (List.product [0..<length bs] [0..<length es])"

section \<open>Application\<close>

text \<open>\<open>onBulletHit(bullet, enemy)\<close>, on the bullet in slot \<open>i\<close> and the enemy in slot \<open>j\<close>.\<close>

definition onBulletHit :: "nat \<Rightarrow> nat \<Rightarrow> app \<Rightarrow> app" where
  "onBulletHit i j a =
     (let enemy = entities (enemies a) ! j
      in a\<lparr>enemies := (enemies a)\<lparr>entities := remove_at j (entities (enemies a))\<rparr>,
           bullets := (bullets a)\<lparr>entities := remove_at i (entities (bullets a))\<rparr>,
           trace := trace a @ [EmitExplosion (xpos enemy) (ypos enemy)]\<rparr>)"

definition onGameOver :: "app \<Rightarrow> app" where
  "onGameOver a =
     (if \<not> gameOver a
      then a\<lparr>gameOver := True,
             trace := trace a @ [HideView,
                                 EmitExplosion (xpos (ent (player a))) (ypos (ent (player a))),
                                 SetTimeout 2500]\<rparr>
      else a)"

definition onFirstPoolCollisions :: "app \<Rightarrow> app" where
  "onFirstPoolCollisions a =
     (let a1 = a\<lparr>trace := trace a @ [PoolCollisions]\<rparr>
      in case first_hit (entities (bullets a1)) (entities (enemies a1)) of
           None \<Rightarrow> a1
         | Some (i, j) \<Rightarrow> onBulletHit i j a1)"

definition onFirstCollision :: "app \<Rightarrow> app" where
  "onFirstCollision a =
     (let a1 = a\<lparr>trace := trace a @ [PlayerCollision]\<rparr>
      in if list_ex (\<lambda>e. collidesWith e (ent (player a1))) (entities (enemies a1))
         then onGameOver a1 else a1)"

definition InputView_reset :: "app \<Rightarrow> app" where
  "InputView_reset a = a\<lparr>startEvt := None\<rparr>"

definition reset :: "variant \<Rightarrow> config \<Rightarrow> app \<Rightarrow> app" where
  "reset v cfg a =
     (let a1 = a\<lparr>score := 0, gameOver := False\<rparr>;
          a2 = (case v of Scrolling \<Rightarrow> a1\<lparr>trace := trace a1 @ [LayerY 0]\<rparr> | Fixed \<Rightarrow> a1);
          a3 = Player_reset v cfg a2;
          a4 = a3\<lparr>trace := trace a3 @ [ParallaxReset]\<rparr>;
          a5 = Bullets_reset cfg a4;
          a6 = Enemies_reset cfg a5;
          a7 = InputView_reset a6
      in a7\<lparr>trace := trace a7 @ [KillAllParticles]\<rparr>)"

definition tick ::
  "variant \<Rightarrow> config \<Rightarrow> (real \<Rightarrow> entity \<Rightarrow> entity) \<Rightarrow> real \<Rightarrow> rolls \<Rightarrow> app \<Rightarrow> app" where
  "tick v cfg upd dt r a =
     (case v of
        Scrolling \<Rightarrow>
          (let a1 = Player_update upd dt a;
               a2 = Bullets_update v cfg upd dt a1;
               a3 = Enemies_update v cfg upd dt r a2;
               screenOffsetY = - getScreenY cfg (player a3);
               a4 = a3\<lparr>trace := trace a3 @ [LayerY screenOffsetY, ParallaxUpdate 0 screenOffsetY]\<rparr>;
               a5 = onFirstPoolCollisions a4;
               a6 = onFirstCollision a5
           in a6\<lparr>trace := trace a6 @ [RunTick dt]\<rparr>)
      | Fixed \<Rightarrow>
          (let a1 = Player_update upd dt a;
               a2 = a1\<lparr>trace := trace a1 @ [ParallaxUpdate 0 0]\<rparr>;
               a3 = Bullets_update v cfg upd dt a2;
               a4 = Enemies_update v cfg upd dt r a3;
               a5 = onFirstPoolCollisions a4;
               a6 = onFirstCollision a5
           in a6\<lparr>trace := trace a6 @ [RunTick dt]\<rparr>))"

text \<open>A run of frames: one \<open>dt\<close> and one set of random draws per tick.\<close>

fun ticks ::
  "variant \<Rightarrow> config \<Rightarrow> (real \<Rightarrow> entity \<Rightarrow> entity) \<Rightarrow> (real \<times> rolls) list \<Rightarrow> app \<Rightarrow> app" where
  "ticks v cfg upd [] a = a"
| "ticks v cfg upd (f # fs) a = ticks v cfg upd fs (tick v cfg upd (fst f) (snd f) a)"

text \<open>The successive states of a run, the starting state first.\<close>

fun history ::
  "variant \<Rightarrow> config \<Rightarrow> (real \<Rightarrow> entity \<Rightarrow> entity) \<Rightarrow> (real \<times> rolls) list \<Rightarrow> app \<Rightarrow> app list" where
  "history v cfg upd [] a = [a]"
| "history v cfg upd (f # fs) a = a # history v cfg upd fs (tick v cfg upd (fst f) (snd f) a)"

section \<open>Observations on runs and traces\<close>

text \<open>A sequence of enemy spawn events, one set of random draws per spawn.\<close>

definition spawns :: "variant \<Rightarrow> config \<Rightarrow> rolls list \<Rightarrow> app \<Rightarrow> app" where
  "spawns v cfg rs a = foldl (\<lambda>s r. spawnEnemy v cfg r s) a rs"

text \<open>The y at which \<open>spawnEnemy\<close> places the enemy it obtains.\<close>

definition spawnY :: "variant \<Rightarrow> config \<Rightarrow> rolls \<Rightarrow> app \<Rightarrow> real" where
  "spawnY v cfg r a =
     (case v of
        Scrolling \<Rightarrow> - (vb_y (chosenBounds r) + vb_h (chosenBounds r)) + getScreenY cfg (player a)
      | Fixed \<Rightarrow> - (vb_y (chosenBounds r) + vb_h (chosenBounds r)))"

text \<open>
  The steps of a frame, as they show in the trace: the calls that \<open>tick\<close> makes on the
  player, the element layer, the parallax, the two pools (their \<open>EntityPool.update\<close> and
  collision sweeps) and the particle engine. What happens inside a step (an \<open>obtain\<close>, an
  explosion, a timer) is left out.
\<close>

fun is_step :: "call \<Rightarrow> bool" where
  "is_step (PlayerUpdate dt) = True"
| "is_step (LayerY y) = True"
| "is_step (ParallaxUpdate x y) = True"
| "is_step (PoolUpdate p dt) = True"
| "is_step PoolCollisions = True"
| "is_step PlayerCollision = True"
| "is_step (RunTick dt) = True"
| "is_step c = False"

definition steps :: "call list \<Rightarrow> call list" where
  "steps tr = filter is_step tr"

text \<open>The bullets fired: the \<open>obtain\<close> calls on the bullets pool.\<close>

fun is_fire :: "call \<Rightarrow> bool" where
  "is_fire (Obtain BulletsPool x y) = True"
| "is_fire c = False"

definition fired :: "call list \<Rightarrow> nat" where
  "fired tr = length (filter is_fire tr)"

text \<open>How often a flag goes from false to true along a list of its successive values.\<close>

fun rises :: "bool list \<Rightarrow> nat" where
  "rises (x # y # ys) = (if \<not> x \<and> y then 1 else 0) + rises (y # ys)"
| "rises ys = 0"


section \<open>An example configuration\<close>

text \<open>
  Concrete values on which the properties below are evaluated: a 576 by 1024 background,
  a bullet every tenth of a time unit, 20 by 20 view bounds, and a base \<open>Entity.update\<close>
  that leaves an entity where it is. \<open>half_config\<close> has spawn bounds half a unit
  apart; \<open>ms_config\<close> and \<open>fast_config\<close> count time in whole milliseconds, with a bullet
  every 100 and every 8 of them; \<open>over_app\<close> is a
  session after game over and \<open>crash_app\<close> one with an enemy on top of the player.
\<close>

definition demo_bounds :: bounds where
  "demo_bounds = \<lparr>vb_x = 0, vb_y = 0, vb_w = 20, vb_h = 20\<rparr>"

definition demo_config :: config where
  "demo_config = \<lparr>bgWidth = 576, bgHeight = 1024, playerOffsetX = 288, playerOffsetY = 874,
     playerBounds = demo_bounds, inputMoveMultiplier = 1, bulletsSpawnCooldown = 1 / 10,
     bulletsBounds = demo_bounds, spawnCooldownMin = 1, spawnCooldownMax = 3\<rparr>"




definition demo_rolls :: rolls where
  "demo_rolls = \<lparr>chosenBounds = demo_bounds, rollX = 100, rollCooldown = 2\<rparr>"

definition demo_player :: player_state where
  "demo_player = \<lparr>ent = \<lparr>xpos = 288, ypos = 874, viewBounds = demo_bounds, active = True\<rparr>,
     inputStartX = 0, inputStartY = 0\<rparr>"

definition demo_bullet :: "real \<Rightarrow> entity" where
  "demo_bullet y = \<lparr>xpos = 288, ypos = y, viewBounds = demo_bounds, active = True\<rparr>"

definition demo_app :: app where
  "demo_app = \<lparr>score = 7, gameOver = False, player = demo_player,
     bullets = \<lparr>entities = [], capacity = 50, spawnCooldown = 1 / 10\<rparr>,
     enemies = \<lparr>entities = [], capacity = 50, spawnCooldown = 0, spawnMin = 1, spawnMax = 3\<rparr>,
     superW = 576, superH = 1024, startEvt = None, trace = []\<rparr>"

definition over_app :: app where
  "over_app = demo_app\<lparr>gameOver := True\<rparr>"

definition crash_app :: app where
  "crash_app = demo_app\<lparr>enemies := (enemies demo_app)\<lparr>entities := [ent demo_player]\<rparr>\<rparr>"

definition still :: "real \<Rightarrow> entity \<Rightarrow> entity" where
  "still dt e = e"
section \<open>Player input\<close>

text \<open>
  C5: for every gesture delta \<open>dx\<close>, \<open>Player.updateInput\<close> sets the horizontal position to
  \<open>clamp(inputStartX + dx * moveMultiplier, 0, BG_WIDTH)\<close>, so the player's x stays in
  \<open>[0, BG_WIDTH]\<close>, for a background width that is not negative (576 in the fixed
  variant, \<open>config.bgWidth\<close> in the scrolling one).
\<close>

theorem updateInput_clamps_x:
  assumes "0 \<le> BG_WIDTH v cfg"
  shows "xpos (ent (updateInput v cfg dx dy p))
           = clamp (inputStartX p + dx * inputMoveMultiplier cfg) 0 (BG_WIDTH v cfg)
         \<and> 0 \<le> xpos (ent (updateInput v cfg dx dy p))
         \<and> xpos (ent (updateInput v cfg dx dy p)) \<le> BG_WIDTH v cfg"
  using assms by (cases v) (auto simp: updateInput_def clamp_def Let_def)

text \<open>
  The scenario of the spec: anchor x = 288, \<open>dx = 1000\<close>, multiplier 1; the result is 576,
  not 1288, in both variants.
\<close>

theorem updateInput_clamps_x_witness:
  "0 \<le> BG_WIDTH Fixed demo_config
   \<and> xpos (ent (updateInput Fixed demo_config 1000 0 (startInput Fixed demo_player))) = 576
   \<and> xpos (ent (updateInput Scrolling demo_config 1000 0 (startInput Scrolling demo_player))) = 576
   \<and> xpos (ent (updateInput Scrolling demo_config 1000 0 (startInput Scrolling demo_player))) \<noteq> 1288"
  using updateInput_clamps_x [of Fixed demo_config 1000 0 "startInput Fixed demo_player"]
        updateInput_clamps_x [of Scrolling demo_config 1000 0 "startInput Scrolling demo_player"]
  by (simp add: BG_WIDTH_def demo_config_def demo_player_def startInput_def clamp_def)

lemma updateInput_overwrites:
  "updateInput v cfg dx dy (updateInput v cfg dx' dy' p) = updateInput v cfg dx dy p"
  by (cases v) (simp_all add: updateInput_def Let_def)

lemma gesture_snoc:
  "gesture v cfg (ds @ [d]) p = updateInput v cfg (fst d) (snd d) (gesture v cfg ds p)"
  by (simp add: gesture_def)

lemma updateInput_gesture:
  "updateInput v cfg dx dy (gesture v cfg ds p) = updateInput v cfg dx dy (startInput v p)"
proof (induction ds rule: rev_induct)
  case Nil
  show ?case by (simp add: gesture_def)
next
  case (snoc d ds)
  show ?case
    by (simp only: gesture_snoc updateInput_overwrites snoc.IH)
qed

text \<open>
  C10: within one gesture (a \<open>startInput\<close> followed by \<open>updateInput\<close> calls) the player
  ends where the last \<open>updateInput\<close> alone, applied to the anchor, puts it; and applying
  the same delta twice in a row changes nothing more.
\<close>

theorem gesture_last_update_only:
  "gesture v cfg (ds @ [(dx, dy)]) p = updateInput v cfg dx dy (startInput v p)
   \<and> updateInput v cfg dx dy (updateInput v cfg dx dy q) = updateInput v cfg dx dy q"
  by (simp add: gesture_snoc updateInput_gesture updateInput_overwrites)

theorem gesture_last_update_only_witness:
  "xpos (ent (gesture Scrolling demo_config [(1000, 0), (-500, 3), (100, 9)] demo_player)) = 388
   \<and> gesture Fixed demo_config [(1000, 0), (-500, 3), (100, 9)] demo_player
       = updateInput Fixed demo_config 100 9 (startInput Fixed demo_player)"
  using gesture_last_update_only [of Scrolling demo_config "[(1000, 0), (-500, 3)]" 100 9 demo_player]
        gesture_last_update_only [of Fixed demo_config "[(1000, 0), (-500, 3)]" 100 9 demo_player]
  by (simp add: updateInput_def startInput_def demo_player_def demo_config_def BG_WIDTH_def Let_def)

section \<open>Session reset\<close>

text \<open>
  C7: whatever the state before, after \<open>reset()\<close> the score is 0, \<open>gameOver\<close> is false,
  both pools hold no active entity, the bullet cooldown is the configured one and the
  enemy counters \<open>spawnMin\<close>/\<open>spawnMax\<close> are the configured bounds.
\<close>

theorem reset_restores_session:
  "score (reset v cfg a) = 0
   \<and> gameOver (reset v cfg a) = False
   \<and> entities (bullets (reset v cfg a)) = []
   \<and> entities (enemies (reset v cfg a)) = []
   \<and> spawnCooldown (bullets (reset v cfg a)) = bulletsSpawnCooldown cfg
   \<and> spawnCooldown (enemies (reset v cfg a)) = 0
   \<and> spawnMin (enemies (reset v cfg a)) = spawnCooldownMin cfg
   \<and> spawnMax (enemies (reset v cfg a)) = spawnCooldownMax cfg"
  by (cases v)
     (simp_all add: reset_def Player_reset_def Bullets_reset_def Enemies_reset_def
        InputView_reset_def EntityPool_reset_def Let_def)

section \<open>Game over\<close>

lemma gameOver_Player_update [simp]: "gameOver (Player_update upd dt a) = gameOver a"
  by (simp add: Player_update_def)

lemma gameOver_spawnBullet [simp]: "gameOver (spawnBullet cfg a) = gameOver a"
  by (simp add: spawnBullet_def Let_def)

lemma gameOver_Bullets_update [simp]: "gameOver (Bullets_update v cfg upd dt a) = gameOver a"
  by (simp add: Bullets_update_def Let_def)

lemma gameOver_spawnEnemy [simp]: "gameOver (spawnEnemy v cfg r a) = gameOver a"
  by (simp add: spawnEnemy_def Let_def)

lemma gameOver_Enemies_update [simp]: "gameOver (Enemies_update v cfg upd dt r a) = gameOver a"
  by (simp add: Enemies_update_def Let_def)

lemma gameOver_onBulletHit [simp]: "gameOver (onBulletHit i j a) = gameOver a"
  by (simp add: onBulletHit_def Let_def)

lemma gameOver_onFirstPoolCollisions [simp]: "gameOver (onFirstPoolCollisions a) = gameOver a"
  by (simp add: onFirstPoolCollisions_def Let_def split: option.splits)

lemma gameOver_onGameOver [simp]: "gameOver (onGameOver a)"
  by (simp add: onGameOver_def)

lemma gameOver_onFirstCollision: "gameOver a \<Longrightarrow> gameOver (onFirstCollision a)"
  by (simp add: onFirstCollision_def Let_def)

text \<open>Nothing in a frame clears \<open>gameOver\<close>: only \<open>reset\<close> does.\<close>

lemma gameOver_tick: "gameOver a \<Longrightarrow> gameOver (tick v cfg upd dt r a)"
  by (cases v) (simp_all add: tick_def Let_def gameOver_onFirstCollision)

lemma gameOver_ticks: "gameOver a \<Longrightarrow> gameOver (ticks v cfg upd fs a)"
  by (induction fs arbitrary: a) (simp_all add: gameOver_tick)

lemma history_hd: "\<exists>rest. history v cfg upd fs a = a # rest"
  by (cases fs) simp_all

lemma rises_once_over: "gameOver a \<Longrightarrow> rises (map gameOver (history v cfg upd fs a)) = 0"
proof (induction fs arbitrary: a)
  case Nil
  show ?case by simp
next
  case (Cons f fs)
  let ?a' = "tick v cfg upd (fst f) (snd f) a"
  obtain rest where r: "history v cfg upd fs ?a' = ?a' # rest"
    using history_hd by blast
  have "rises (map gameOver (history v cfg upd fs ?a')) = 0"
    using Cons.IH Cons.prems gameOver_tick by blast
  then show ?case using Cons.prems by (simp add: r)
qed

lemma rises_le_1: "rises (map gameOver (history v cfg upd fs a)) \<le> 1"
proof (induction fs arbitrary: a)
  case Nil
  show ?case by simp
next
  case (Cons f fs)
  let ?a' = "tick v cfg upd (fst f) (snd f) a"
  obtain rest where r: "history v cfg upd fs ?a' = ?a' # rest"
    using history_hd by blast
  show ?case
  proof (cases "gameOver ?a'")
    case True
    then have "rises (map gameOver (history v cfg upd fs ?a')) = 0"
      by (rule rises_once_over)
    then show ?thesis by (simp add: r)
  next
    case False
    then have "rises (map gameOver (history v cfg upd (f # fs) a))
                 = rises (map gameOver (history v cfg upd fs ?a'))"
      by (simp add: r)
    then show ?thesis using Cons.IH [of ?a'] by simp
  qed
qed

text \<open>
  C6: the game-over handler is idempotent. Called while \<open>gameOver\<close> is already true it
  changes nothing at all (no second hide, explosion or timer, the trace included); a
  second call right after a first changes nothing more; and along any run of frames
  without a reset \<open>gameOver\<close> goes from false to true at most once.
\<close>

theorem onGameOver_idempotent:
  "(gameOver a \<longrightarrow> onGameOver a = a)
   \<and> onGameOver (onGameOver a) = onGameOver a
   \<and> gameOver (onGameOver a)
   \<and> rises (map gameOver (history v cfg upd fs a)) \<le> 1"
  using rises_le_1 [of v cfg upd fs a] by (simp add: onGameOver_def)

text \<open>
  A frame in which an enemy overlaps the player ends the game; the flag rises once over
  the two frames and the second frame leaves it set.
\<close>

lemma crash_tick: "gameOver (tick Fixed demo_config still (1 / 60) demo_rolls crash_app)"
  by code_simp

theorem onGameOver_idempotent_witness:
  "gameOver over_app \<and> onGameOver over_app = over_app
   \<and> \<not> gameOver crash_app
   \<and> gameOver (tick Fixed demo_config still (1 / 60) demo_rolls crash_app)
   \<and> rises (map gameOver (history Fixed demo_config still
                [(1 / 60, demo_rolls), (1 / 60, demo_rolls)] crash_app)) = 1"
proof -
  have "rises (map gameOver (history Fixed demo_config still
                [(1 / 60, demo_rolls), (1 / 60, demo_rolls)] crash_app)) \<ge> 1"
    using crash_tick by (simp add: crash_app_def demo_app_def)
  then show ?thesis
    using onGameOver_idempotent [of over_app Fixed demo_config still
            "[(1 / 60, demo_rolls), (1 / 60, demo_rolls)]"]
          onGameOver_idempotent [of crash_app Fixed demo_config still
            "[(1 / 60, demo_rolls), (1 / 60, demo_rolls)]"]
          crash_tick
    by (simp add: over_app_def crash_app_def demo_app_def)
qed

section \<open>Bullets fired, through the operations of a frame\<close>

lemma fired_append [simp]: "fired (xs @ ys) = fired xs + fired ys"
  by (simp add: fired_def)

lemma fired_Player_update [simp]: "fired (trace (Player_update upd dt a)) = fired (trace a)"
  by (simp add: Player_update_def fired_def)

lemma fired_spawnBullet:
  "fired (trace (spawnBullet cfg a)) = fired (trace a) + (if gameOver a then 0 else 1)"
  by (simp add: spawnBullet_def Let_def fired_def)

lemma fired_Bullets_update:
  "fired (trace (Bullets_update v cfg upd dt a))
     = fired (trace a) + (if spawnCooldown (bullets a) - dt \<le> 0 \<and> \<not> gameOver a then 1 else 0)"
  by (simp add: Bullets_update_def Let_def fired_spawnBullet) (simp add: fired_def)

lemma fired_Enemies_update [simp]:
  "fired (trace (Enemies_update v cfg upd dt r a)) = fired (trace a)"
  by (simp add: Enemies_update_def spawnEnemy_def Let_def fired_def)

lemma fired_onFirstPoolCollisions [simp]:
  "fired (trace (onFirstPoolCollisions a)) = fired (trace a)"
  by (simp add: onFirstPoolCollisions_def onBulletHit_def Let_def fired_def split: option.splits)

lemma fired_onFirstCollision [simp]:
  "fired (trace (onFirstCollision a)) = fired (trace a)"
  by (simp add: onFirstCollision_def onGameOver_def Let_def fired_def)

lemma fired_tick: "gameOver a \<Longrightarrow> fired (trace (tick v cfg upd dt r a)) = fired (trace a)"
  by (cases v) (simp_all add: tick_def Let_def fired_Bullets_update, simp_all add: fired_def)

lemma fired_ticks: "gameOver a \<Longrightarrow> fired (trace (ticks v cfg upd fs a)) = fired (trace a)"
  by (induction fs arbitrary: a) (simp_all add: gameOver_tick fired_tick)

text \<open>
  C8: while \<open>gameOver\<close> is true no bullet is fired. A call of \<open>spawnBullet\<close> leaves the
  whole state as it was (nothing is obtained from the pool), and this stays so after any
  run of frames, whatever their \<open>dt\<close>, the random draws and the player's position: the
  flag is still set, \<open>spawnBullet\<close> is still without effect, and the run has asked the
  bullets pool for no entity.
\<close>

theorem spawnBullet_suppressed:
  assumes "gameOver a"
  shows "spawnBullet cfg a = a
         \<and> gameOver (ticks v cfg upd fs a)
         \<and> spawnBullet cfg (ticks v cfg upd fs a) = ticks v cfg upd fs a
         \<and> fired (trace (ticks v cfg upd fs a)) = fired (trace a)"
  using assms by (simp add: gameOver_ticks fired_ticks spawnBullet_def)

theorem spawnBullet_suppressed_witness:
  "gameOver over_app
   \<and> spawnBullet demo_config over_app = over_app
   \<and> fired (trace (ticks Scrolling demo_config still
               [(1 / 5, demo_rolls), (1 / 5, demo_rolls)] over_app)) = 0"
  using spawnBullet_suppressed [of over_app demo_config Scrolling still
          "[(1 / 5, demo_rolls), (1 / 5, demo_rolls)]"]
  by (simp add: over_app_def demo_app_def fired_def)

section \<open>Enemy spawning after game over\<close>

lemma Enemy_update_enemies:
  "Enemy_update v cfg upd dt (a\<lparr>enemies := es\<rparr>) = Enemy_update v cfg upd dt a"
  by (rule ext) (simp add: Enemy_update_def Let_def)

lemma Enemy_update_trace:
  "Enemy_update v cfg upd dt (a\<lparr>trace := tr\<rparr>) = Enemy_update v cfg upd dt a"
  by (rule ext) (simp add: Enemy_update_def Let_def)

text \<open>
  C9: enemy spawning is not suppressed by game over. With \<open>gameOver\<close> true, an
  \<open>Enemies.update\<close> whose countdown elapses still runs \<open>spawnEnemy\<close>: \<open>spawnMax\<close> takes its
  unit decrement when it is above \<open>spawnMin\<close>, an enemy is requested from the pool at the
  rolled x and just above the view (and, with a free slot, goes through the pool's update
  with the others), and the countdown is re-armed with the rolled cooldown.
\<close>

theorem Enemies_update_during_gameOver:
  assumes "gameOver a" and "spawnCooldown (enemies a) - dt \<le> 0"
  shows "spawnMax (enemies (Enemies_update v cfg upd dt r a))
           = (if spawnMax (enemies a) > spawnMin (enemies a)
              then spawnMax (enemies a) - 1 else spawnMax (enemies a))
         \<and> trace (Enemies_update v cfg upd dt r a)
           = trace a @ [Obtain EnemiesPool (rollX r) (spawnY v cfg r a), PoolUpdate EnemiesPool dt]
         \<and> spawnCooldown (enemies (Enemies_update v cfg upd dt r a))
           = spawnCooldown (enemies a) - dt + rollCooldown r
         \<and> (length (entities (enemies a)) < capacity (enemies a) \<longrightarrow>
              entities (enemies (Enemies_update v cfg upd dt r a))
                = filter active (map (Enemy_update v cfg upd dt a)
                    (entities (enemies a) @
                       [\<lparr>xpos = rollX r, ypos = spawnY v cfg r a,
                         viewBounds = chosenBounds r, active = True\<rparr>])))
         \<and> gameOver (Enemies_update v cfg upd dt r a)"
  using assms
  by (cases v)
     (simp_all add: Enemies_update_def spawnEnemy_def pool_obtain_def EntityPool_update_def
        spawnY_def Let_def Enemy_update_enemies Enemy_update_trace)

theorem Enemies_update_during_gameOver_witness:
  "gameOver over_app
   \<and> spawnCooldown (enemies over_app) - 1 / 60 \<le> 0
   \<and> length (entities (enemies over_app)) < capacity (enemies over_app)
   \<and> spawnMax (enemies over_app) = 3
   \<and> spawnMax (enemies (Enemies_update Fixed demo_config still (1 / 60) demo_rolls over_app)) = 2
   \<and> trace (Enemies_update Fixed demo_config still (1 / 60) demo_rolls over_app)
       = [Obtain EnemiesPool 100 (- 20), PoolUpdate EnemiesPool (1 / 60)]"
  using Enemies_update_during_gameOver [of over_app "1 / 60" Fixed demo_config still demo_rolls]
  by (simp add: over_app_def demo_app_def spawnY_def demo_rolls_def demo_bounds_def)

section \<open>The order of a frame\<close>

lemma steps_append [simp]: "steps (xs @ ys) = steps xs @ steps ys"
  by (simp add: steps_def)

lemma steps_Player_update:
  "steps (trace (Player_update upd dt a)) = steps (trace a) @ [PlayerUpdate dt]"
  by (simp add: Player_update_def) (simp add: steps_def)

lemma steps_Bullets_update:
  "steps (trace (Bullets_update v cfg upd dt a)) = steps (trace a) @ [PoolUpdate BulletsPool dt]"
  by (simp add: Bullets_update_def spawnBullet_def Let_def) (simp add: steps_def)

lemma steps_Enemies_update:
  "steps (trace (Enemies_update v cfg upd dt r a)) = steps (trace a) @ [PoolUpdate EnemiesPool dt]"
  by (simp add: Enemies_update_def spawnEnemy_def Let_def) (simp add: steps_def)

lemma steps_onFirstPoolCollisions:
  "steps (trace (onFirstPoolCollisions a)) = steps (trace a) @ [PoolCollisions]"
  by (simp add: onFirstPoolCollisions_def onBulletHit_def Let_def split: option.splits)
     (simp add: steps_def)

lemma steps_onFirstCollision:
  "steps (trace (onFirstCollision a)) = steps (trace a) @ [PlayerCollision]"
  by (simp add: onFirstCollision_def onGameOver_def Let_def) (simp add: steps_def)

lemma player_Bullets_update [simp]: "player (Bullets_update v cfg upd dt a) = player a"
  by (simp add: Bullets_update_def spawnBullet_def Let_def)

lemma player_Enemies_update [simp]: "player (Enemies_update v cfg upd dt r a) = player a"
  by (simp add: Enemies_update_def spawnEnemy_def Let_def)

text \<open>
  C3, as the code has it: a frame of the fixed variant updates the player, then the
  parallax (at offset 0), then the bullets pool, then the enemies pool, then resolves
  bullet-enemy and enemy-player collisions, then advances the particles. A frame of the
  scrolling variant updates the player, the bullets pool and the enemies pool first, and
  only then recomputes the scroll offset from the player and applies it to the element
  layer and the parallax, before the two collision sweeps and the particles.
\<close>

theorem tick_order:
  "steps (trace (tick Fixed cfg upd dt r a))
     = steps (trace a) @ [PlayerUpdate dt, ParallaxUpdate 0 0, PoolUpdate BulletsPool dt,
                          PoolUpdate EnemiesPool dt, PoolCollisions, PlayerCollision, RunTick dt]
   \<and> steps (trace (tick Scrolling cfg upd dt r a))
     = steps (trace a) @ [PlayerUpdate dt, PoolUpdate BulletsPool dt, PoolUpdate EnemiesPool dt,
                          LayerY (- getScreenY cfg (player (Player_update upd dt a))),
                          ParallaxUpdate 0 (- getScreenY cfg (player (Player_update upd dt a))),
                          PoolCollisions, PlayerCollision, RunTick dt]"
  by (simp add: tick_def Let_def steps_Player_update steps_Bullets_update steps_Enemies_update
        steps_onFirstPoolCollisions steps_onFirstCollision)
     (simp add: steps_def)

theorem tick_order_witness:
  "steps (trace (tick Fixed demo_config still 1 demo_rolls demo_app))
     = [PlayerUpdate 1, ParallaxUpdate 0 0, PoolUpdate BulletsPool 1,
        PoolUpdate EnemiesPool 1, PoolCollisions, PlayerCollision, RunTick 1]"
  using tick_order [of demo_config still 1 demo_rolls demo_app]
  by (simp add: steps_def demo_app_def)

text \<open>
  In the scrolling variant the scroll offset is not applied between the player and the
  bullets: the frame below has the two pool updates before \<open>LayerY\<close> and
  \<open>ParallaxUpdate\<close>.
\<close>

theorem tick_order_counterexample:
  "steps (trace (tick Scrolling demo_config still 1 demo_rolls demo_app))
     = [PlayerUpdate 1, PoolUpdate BulletsPool 1, PoolUpdate EnemiesPool 1,
        LayerY 0, ParallaxUpdate 0 0, PoolCollisions, PlayerCollision, RunTick 1]
   \<and> steps (trace (tick Scrolling demo_config still 1 demo_rolls demo_app))
     \<noteq> [PlayerUpdate 1, LayerY 0, ParallaxUpdate 0 0, PoolUpdate BulletsPool 1,
         PoolUpdate EnemiesPool 1, PoolCollisions, PlayerCollision, RunTick 1]"
proof -
  have "steps (trace (tick Scrolling demo_config still 1 demo_rolls demo_app))
     = [PlayerUpdate 1, PoolUpdate BulletsPool 1, PoolUpdate EnemiesPool 1,
        LayerY 0, ParallaxUpdate 0 0, PoolCollisions, PlayerCollision, RunTick 1]"
    by (simp add: tick_def Let_def steps_Player_update steps_Bullets_update steps_Enemies_update
        steps_onFirstPoolCollisions steps_onFirstCollision)
       (simp add: steps_def demo_app_def Player_update_def getScreenY_def demo_player_def
          demo_config_def still_def)
  then show ?thesis by simp
qed

section \<open>Bullet release\<close>

text \<open>
  C4, as the code has it: a bullet that is active after its base update is released by
  \<open>Bullet.update\<close> exactly when its bottom edge \<open>y + viewBounds.y + viewBounds.h\<close> is
  above the top of the view, that is below \<open>getScreenY()\<close> in the scrolling variant and
  below 0 in the fixed one: the whole bullet has left the view, not only its top edge.
\<close>

theorem Bullet_update_release:
  assumes "active (upd dt e)"
  shows "\<not> active (Bullet_update v cfg upd dt a e)
         \<longleftrightarrow> ypos (upd dt e) + vb_y (viewBounds (upd dt e)) + vb_h (viewBounds (upd dt e))
               < (case v of Scrolling \<Rightarrow> getScreenY cfg (player a) | Fixed \<Rightarrow> 0)"
  using assms by (cases v) (simp_all add: Bullet_update_def release_def Let_def)

text \<open>
  The scenario of the spec: view bounds \<open>{y: 0, h: 20}\<close>, the bullet at \<open>y = -25\<close>, the
  player's \<open>getScreenY()\<close> at 0; the bullet is released.
\<close>

theorem Bullet_update_release_witness:
  "active (still 1 (demo_bullet (-25)))
   \<and> getScreenY demo_config (player demo_app) = 0
   \<and> \<not> active (Bullet_update Scrolling demo_config still 1 demo_app (demo_bullet (-25)))
   \<and> \<not> active (Bullet_update Fixed demo_config still 1 demo_app (demo_bullet (-25)))"
  using Bullet_update_release [of still 1 "demo_bullet (-25)" Scrolling demo_config demo_app]
        Bullet_update_release [of still 1 "demo_bullet (-25)" Fixed demo_config demo_app]
  by (simp add: still_def demo_bullet_def demo_bounds_def getScreenY_def demo_app_def
        demo_player_def demo_config_def)

text \<open>
  A bullet at \<open>y = -10\<close> with the same bounds has its top edge above the top of the view
  and is kept, in both variants: its bottom edge, at 10, is still inside.
\<close>

theorem Bullet_update_release_counterexample:
  "ypos (demo_bullet (-10)) + vb_y (viewBounds (demo_bullet (-10)))
     < getScreenY demo_config (player demo_app)
   \<and> active (Bullet_update Scrolling demo_config still 1 demo_app (demo_bullet (-10)))
   \<and> ypos (demo_bullet (-10)) + vb_y (viewBounds (demo_bullet (-10))) < 0
   \<and> active (Bullet_update Fixed demo_config still 1 demo_app (demo_bullet (-10)))"
  by (simp add: Bullet_update_def release_def Let_def still_def demo_bullet_def demo_bounds_def
        getScreenY_def demo_app_def demo_player_def demo_config_def)

section \<open>The difficulty ramp\<close>

lemma spawnMin_spawnEnemy [simp]:
  "spawnMin (enemies (spawnEnemy v cfg r a)) = spawnMin (enemies a)"
  by (simp add: spawnEnemy_def pool_obtain_def Let_def)


lemma spawns_snoc: "spawns v cfg (rs @ [r]) a = spawnEnemy v cfg r (spawns v cfg rs a)"
  by (simp add: spawns_def)

lemma spawnMin_spawns [simp]: "spawnMin (enemies (spawns v cfg rs a)) = spawnMin (enemies a)"
  by (induction rs rule: rev_induct) (simp_all add: spawns_snoc, simp add: spawns_def)



lemma Enemies_reset_bounds [simp]:
  "spawnMin (enemies (Enemies_reset cfg a)) = spawnCooldownMin cfg"
  "spawnMax (enemies (Enemies_reset cfg a)) = spawnCooldownMax cfg"
  by (simp_all add: Enemies_reset_def EntityPool_reset_def)

text \<open>The same through whole frames: only \<open>spawnEnemy\<close> touches the two bounds.\<close>

lemma spawn_bounds_Player_update [simp]:
  "spawnMin (enemies (Player_update upd dt a)) = spawnMin (enemies a)"
  "spawnMax (enemies (Player_update upd dt a)) = spawnMax (enemies a)"
  "spawnCooldown (enemies (Player_update upd dt a)) = spawnCooldown (enemies a)"
  by (simp_all add: Player_update_def)

lemma spawn_bounds_Bullets_update [simp]:
  "spawnMin (enemies (Bullets_update v cfg upd dt a)) = spawnMin (enemies a)"
  "spawnMax (enemies (Bullets_update v cfg upd dt a)) = spawnMax (enemies a)"
  "spawnCooldown (enemies (Bullets_update v cfg upd dt a)) = spawnCooldown (enemies a)"
  by (simp_all add: Bullets_update_def spawnBullet_def Let_def)

lemma spawn_bounds_Enemies_update:
  "spawnMin (enemies (Enemies_update v cfg upd dt r a)) = spawnMin (enemies a)"
  "spawnMax (enemies (Enemies_update v cfg upd dt r a))
     = (if spawnCooldown (enemies a) - dt \<le> 0 \<and> spawnMax (enemies a) > spawnMin (enemies a)
        then spawnMax (enemies a) - 1 else spawnMax (enemies a))"
  by (simp_all add: Enemies_update_def spawnEnemy_def pool_obtain_def EntityPool_update_def Let_def)

lemma spawn_bounds_onFirstPoolCollisions [simp]:
  "spawnMin (enemies (onFirstPoolCollisions a)) = spawnMin (enemies a)"
  "spawnMax (enemies (onFirstPoolCollisions a)) = spawnMax (enemies a)"
  by (simp_all add: onFirstPoolCollisions_def onBulletHit_def Let_def split: option.splits)

lemma spawn_bounds_onFirstCollision [simp]:
  "spawnMin (enemies (onFirstCollision a)) = spawnMin (enemies a)"
  "spawnMax (enemies (onFirstCollision a)) = spawnMax (enemies a)"
  by (simp_all add: onFirstCollision_def onGameOver_def Let_def)

lemma spawn_bounds_tick:
  "spawnMin (enemies (tick v cfg upd dt r a)) = spawnMin (enemies a)"
  "spawnMax (enemies (tick v cfg upd dt r a))
     = (if spawnCooldown (enemies a) - dt \<le> 0 \<and> spawnMax (enemies a) > spawnMin (enemies a)
        then spawnMax (enemies a) - 1 else spawnMax (enemies a))"
  by (cases v; simp add: tick_def Let_def spawn_bounds_Enemies_update)+

lemma spawnMin_ticks [simp]:
  "spawnMin (enemies (ticks v cfg upd fs a)) = spawnMin (enemies a)"
  by (induction fs arbitrary: a) (simp_all add: spawn_bounds_tick)


lemma spawn_bounds_reset [simp]:
  "spawnMin (enemies (reset v cfg a)) = spawnCooldownMin cfg"
  "spawnMax (enemies (reset v cfg a)) = spawnCooldownMax cfg"
  by (cases v; simp add: reset_def Let_def InputView_reset_def)+





section \<open>The bullet timer\<close>


lemma Bullets_update_funpow_gameOver [simp]:
  "gameOver ((Bullets_update v cfg upd dt ^^ n) a) = gameOver a"
  by (induction n) simp_all








end
